theory Spec2Isabelle
  imports Complex_Main
begin

section \<open>Arrays\<close>

text \<open>
  The functions of \<^verbatim>\<open>expm.py\<close> and \<^verbatim>\<open>convenience.py\<close> work on numpy arrays. A
  two-dimensional array is modelled by its rows together with its number of columns, so
  that an array of shape \<open>(0, c)\<close> keeps its second dimension; a one-dimensional array
  is a list. Every numpy array is rectangular. Entries are exact numbers (rounding is
  not modelled). The failures numpy reports by raising are values of \<open>error\<close>.
\<close>

datatype error = IndexOutOfBounds | ShapeMismatch | EmptySequence

record 'a matrix =
  ncols :: nat
  rows :: "'a list list"

definition nrows :: "'a matrix \<Rightarrow> nat" where
  "nrows A = length (rows A)"

definition shape :: "'a matrix \<Rightarrow> nat \<times> nat" where
  "shape A = (nrows A, ncols A)"

definition rectangular :: "'a matrix \<Rightarrow> bool" where
  "rectangular A \<longleftrightarrow> (\<forall>r \<in> set (rows A). length r = ncols A)"

definition entry :: "'a matrix \<Rightarrow> nat \<Rightarrow> nat \<Rightarrow> 'a" where
  "entry A i j = rows A ! i ! j"

text \<open>\<^verbatim>\<open>np.zeros((r, c))\<close>\<close>

definition zeros :: "nat \<Rightarrow> nat \<Rightarrow> ('a::zero) matrix" where
  "zeros r c = \<lparr>ncols = c, rows = replicate r (replicate c 0)\<rparr>"

text \<open>\<^verbatim>\<open>A[i, :]\<close> for an index produced by \<^verbatim>\<open>range\<close>\<close>

definition getrow :: "'a matrix \<Rightarrow> nat \<Rightarrow> error + 'a list" where
  "getrow A i = (if i < nrows A then Inr (rows A ! i) else Inl IndexOutOfBounds)"

text \<open>\<^verbatim>\<open>A[:, j]\<close>\<close>

definition getcol :: "'a matrix \<Rightarrow> nat \<Rightarrow> error + 'a list" where
  "getcol A j = (if j < ncols A then Inr (map (\<lambda>r. r ! j) (rows A)) else Inl IndexOutOfBounds)"

text \<open>\<^verbatim>\<open>A[i, j] = v\<close>\<close>

definition setitem :: "'a matrix \<Rightarrow> nat \<Rightarrow> nat \<Rightarrow> 'a \<Rightarrow> error + 'a matrix" where
  "setitem A i j v =
     (if i < nrows A \<and> j < ncols A
      then Inr (A\<lparr>rows := (rows A)[i := (rows A ! i)[j := v]]\<rparr>)
      else Inl IndexOutOfBounds)"

text \<open>
  Broadcasting of one dimension: two extents are compatible when they are equal or one
  of them is 1; an operand of extent 1 is repeated.
\<close>

definition broadcast_dim :: "nat \<Rightarrow> nat \<Rightarrow> error + nat" where
  "broadcast_dim a b =
     (if a = b then Inr a else if a = 1 then Inr b else if b = 1 then Inr a
      else Inl ShapeMismatch)"

definition stretch :: "nat \<Rightarrow> 'a list \<Rightarrow> 'a list" where
  "stretch n xs = (if length xs = 1 then replicate n (hd xs) else xs)"

text \<open>An elementwise binary operation of numpy on one-dimensional arrays.\<close>

definition elementwise1 :: "('a \<Rightarrow> 'b \<Rightarrow> 'c) \<Rightarrow> 'a list \<Rightarrow> 'b list \<Rightarrow> error + 'c list" where
  "elementwise1 f u v =
     (case broadcast_dim (length u) (length v) of
        Inl e \<Rightarrow> Inl e
      | Inr n \<Rightarrow> Inr (map2 f (stretch n u) (stretch n v)))"

text \<open>An elementwise binary operation of numpy on two-dimensional arrays.\<close>

definition elementwise2 ::
  "('a \<Rightarrow> 'b \<Rightarrow> 'c) \<Rightarrow> 'a matrix \<Rightarrow> 'b matrix \<Rightarrow> error + 'c matrix" where
  "elementwise2 f A B =
     (case broadcast_dim (nrows A) (nrows B) of
        Inl e \<Rightarrow> Inl e
      | Inr r \<Rightarrow>
          (case broadcast_dim (ncols A) (ncols B) of
             Inl e \<Rightarrow> Inl e
           | Inr c \<Rightarrow>
               Inr \<lparr>ncols = c,
                    rows = map2 (\<lambda>u v. map2 f (stretch c u) (stretch c v))
                             (stretch r (rows A)) (stretch r (rows B))\<rparr>))"

text \<open>\<^verbatim>\<open>D += R\<close>: the right operand is broadcast to the shape of the left one.\<close>

definition iadd :: "('a::plus) matrix \<Rightarrow> 'a matrix \<Rightarrow> error + 'a matrix" where
  "iadd D R =
     (if (nrows R = nrows D \<or> nrows R = 1) \<and> (ncols R = ncols D \<or> ncols R = 1)
      then Inr \<lparr>ncols = ncols D,
                rows = map2 (\<lambda>u v. map2 (+) u (stretch (ncols D) v))
                         (rows D) (stretch (nrows D) (rows R))\<rparr>
      else Inl ShapeMismatch)"

text \<open>
  \<^verbatim>\<open>np.sum(np.multiply(u, v))\<close> on two one-dimensional arrays of one length, which is
  also \<^verbatim>\<open>np.dot(u, v)\<close>: no entry is conjugated.
\<close>

definition vdot :: "('a::{monoid_add,times}) list \<Rightarrow> 'a list \<Rightarrow> 'a" where
  "vdot u v = sum_list (map2 (*) u v)"

definition column :: "'a matrix \<Rightarrow> nat \<Rightarrow> 'a list" where
  "column B j = map (\<lambda>r. r ! j) (rows B)"

text \<open>\<^verbatim>\<open>np.matmul(A, B)\<close> on two-dimensional arrays\<close>

definition matmul :: "('a::{monoid_add,times}) matrix \<Rightarrow> 'a matrix \<Rightarrow> error + 'a matrix" where
  "matmul A B =
     (if ncols A = nrows B
      then Inr \<lparr>ncols = ncols B,
                rows = map (\<lambda>r. map (\<lambda>j. vdot r (column B j)) [0..<ncols B]) (rows A)\<rparr>
      else Inl ShapeMismatch)"

text \<open>A \<^verbatim>\<open>for\<close> loop over a sequence, with the loop's variables as state; it stops at
  the first failure.\<close>

primrec for_loop :: "'i list \<Rightarrow> ('i \<Rightarrow> 's \<Rightarrow> error + 's) \<Rightarrow> 's \<Rightarrow> error + 's" where
  "for_loop [] body s = Inr s"
| "for_loop (i # is) body s =
     (case body i s of Inl e \<Rightarrow> Inl e | Inr s' \<Rightarrow> for_loop is body s')"

section \<open>The matrix exponential and its backward rules (expm.py)\<close>

text \<open>
  \<^verbatim>\<open>expm\<close> and \<^verbatim>\<open>expm_fastgrad\<close> hand their first argument to \<^verbatim>\<open>scipy.linalg.expm\<close>,
  a routine of an external library: it is the parameter \<open>la_expm\<close>.
\<close>

definition expm ::
  "(complex matrix \<Rightarrow> error + complex matrix) \<Rightarrow> complex matrix \<Rightarrow> error + complex matrix" where
  "expm la_expm matrix = (let exp_matrix = la_expm matrix in exp_matrix)"

definition expm_fastgrad ::
  "(complex matrix \<Rightarrow> error + complex matrix) \<Rightarrow> complex matrix \<Rightarrow> complex matrix list
     \<Rightarrow> error + complex matrix" where
  "expm_fastgrad la_expm matrix control_matrix_list =
     (let exp_matrix = la_expm matrix in exp_matrix)"

definition expm_fastgrad_vjp ::
  "complex matrix \<Rightarrow> complex matrix \<Rightarrow> complex matrix list \<Rightarrow> complex matrix
     \<Rightarrow> error + complex matrix" where
  "expm_fastgrad_vjp exp_matrix matrix control_matrix_list dfinal_dexpm =
     (let matrix_size = nrows matrix in
      case for_loop control_matrix_list
             (\<lambda>control_matrix dexpm_dcontrols.
                case matmul control_matrix exp_matrix of
                  Inl e \<Rightarrow> Inl e
                | Inr p \<Rightarrow> iadd dexpm_dcontrols p)
             (zeros matrix_size matrix_size) of
        Inl e \<Rightarrow> Inl e
      | Inr dexpm_dcontrols \<Rightarrow> matmul dfinal_dexpm dexpm_dcontrols)"

definition expm_fastgrad_vjp_dummy ::
  "complex matrix \<Rightarrow> complex matrix \<Rightarrow> complex matrix list \<Rightarrow> 'g \<Rightarrow> real" where
  "expm_fastgrad_vjp_dummy exp_matrix matrix control_matrix_list = (\<lambda>g. 0)"

definition expm_vjp ::
  "complex matrix \<Rightarrow> complex matrix \<Rightarrow> complex matrix \<Rightarrow> error + complex matrix" where
  "expm_vjp exp_matrix matrix dfinal_dexpm =
     (let matrix_size = nrows matrix in
      for_loop [0..<matrix_size]
        (\<lambda>i. for_loop [0..<matrix_size]
           (\<lambda>j dfinal_dmatrix.
              case getrow exp_matrix j of
                Inl e \<Rightarrow> Inl e
              | Inr dexpm_dmij_rowi \<Rightarrow>
                  (case getrow dfinal_dexpm i of
                     Inl e \<Rightarrow> Inl e
                   | Inr g \<Rightarrow>
                       (case elementwise1 (*) g dexpm_dmij_rowi of
                          Inl e \<Rightarrow> Inl e
                        | Inr p \<Rightarrow> setitem dfinal_dmatrix i j (sum_list p)))))
        (zeros matrix_size matrix_size))"

section \<open>Common computations (convenience.py)\<close>

definition commutator ::
  "('a::{monoid_add,times,minus}) matrix \<Rightarrow> 'a matrix \<Rightarrow> error + 'a matrix" where
  "commutator a b =
     (case matmul a b of
        Inl e \<Rightarrow> Inl e
      | Inr ab \<Rightarrow>
          (case matmul b a of
             Inl e \<Rightarrow> Inl e
           | Inr ba \<Rightarrow> elementwise2 (-) ab ba))"

text \<open>\<^verbatim>\<open>-A\<close>\<close>

definition negative :: "('a::uminus) matrix \<Rightarrow> 'a matrix" where
  "negative A = A\<lparr>rows := map (map uminus) (rows A)\<rparr>"

text \<open>\<^verbatim>\<open>anp.dot(u, v)\<close> on one-dimensional arrays: the lengths have to agree.\<close>

definition dot1 :: "('a::{monoid_add,times}) list \<Rightarrow> 'a list \<Rightarrow> error + 'a" where
  "dot1 u v = (if length u = length v then Inr (vdot u v) else Inl ShapeMismatch)"

text \<open>
  \<^verbatim>\<open>project(x, basis)\<close> for a one-dimensional \<open>x\<close> and a two-dimensional \<open>basis\<close>;
  \<^verbatim>\<open>basis[i]\<close> is row \<open>i\<close>.
\<close>

definition project :: "complex list \<Rightarrow> complex matrix \<Rightarrow> error + complex list" where
  "project x basis =
     for_loop [0..<nrows basis]
       (\<lambda>i y.
          case getrow basis i of
            Inl e \<Rightarrow> Inl e
          | Inr b \<Rightarrow>
              (case dot1 x b of
                 Inl e \<Rightarrow> Inl e
               | Inr d \<Rightarrow> elementwise1 (+) y (map ((*) d) b)))
       (replicate (length x) 0)"

text \<open>
  \<^verbatim>\<open>anp.vstack(v)\<close> on a one-dimensional array \<open>v\<close>: the sequence that is stacked is the
  sequence of the entries of \<open>v\<close>, each one made a \<open>1 \<times> 1\<close> array; an empty sequence
  cannot be concatenated.
\<close>

definition vstack_entries :: "'a list \<Rightarrow> error + 'a matrix" where
  "vstack_entries v =
     (if v = [] then Inl EmptySequence else Inr \<lparr>ncols = 1, rows = map (\<lambda>x. [x]) v\<rparr>)"

text \<open>
  \<^verbatim>\<open>anp.stack(ms)\<close> on a list of two-dimensional arrays: a three-dimensional array, kept
  as the list of its slices along the first axis. The list must not be empty and the
  shapes have to agree.
\<close>

definition stack :: "'a matrix list \<Rightarrow> error + 'a matrix list" where
  "stack ms =
     (if ms = [] then Inl EmptySequence
      else if \<forall>m \<in> set ms. shape m = shape (hd ms) then Inr ms
      else Inl ShapeMismatch)"

text \<open>
  \<^verbatim>\<open>anp.hstack(ms)\<close> on a sequence of two-dimensional arrays: concatenation along the
  second axis.
\<close>

definition hstack :: "'a matrix list \<Rightarrow> error + 'a matrix" where
  "hstack ms =
     (if ms = [] then Inl EmptySequence
      else if \<forall>m \<in> set ms. nrows m = nrows (hd ms)
      then Inr \<lparr>ncols = sum_list (map ncols ms),
                rows = map (\<lambda>i. concat (map (\<lambda>m. rows m ! i) ms)) [0..<nrows (hd ms)]\<rparr>
      else Inl ShapeMismatch)"

text \<open>A list comprehension whose element expression can fail.\<close>

primrec comprehension :: "('i \<Rightarrow> error + 'b) \<Rightarrow> 'i list \<Rightarrow> error + 'b list" where
  "comprehension f [] = Inr []"
| "comprehension f (i # is) =
     (case f i of
        Inl e \<Rightarrow> Inl e
      | Inr y \<Rightarrow> (case comprehension f is of Inl e \<Rightarrow> Inl e | Inr ys \<Rightarrow> Inr (y # ys)))"

definition column_vector_list_to_matrix :: "'a matrix list \<Rightarrow> error + 'a matrix" where
  "column_vector_list_to_matrix column_vector_list = hstack column_vector_list"

definition matrix_to_column_vector_list :: "'a matrix \<Rightarrow> error + 'a matrix list" where
  "matrix_to_column_vector_list matrix =
     (case comprehension
             (\<lambda>i. case getcol matrix i of Inl e \<Rightarrow> Inl e | Inr c \<Rightarrow> vstack_entries c)
             [0..<ncols matrix] of
        Inl e \<Rightarrow> Inl e
      | Inr cs \<Rightarrow> stack cs)"

subsection \<open>Gram-Schmidt\<close>

text \<open>
  \<^verbatim>\<open>gram_schmidt\<close> divides by norms. numpy does not raise on a division by zero: the
  quotient is a value that is not a number (or an infinity, which here is at once
  multiplied by the zero row it was computed from), and every arithmetic operation on
  it gives such a value again. \<open>NonFinite\<close> stands for these values; \<open>Fin x\<close> is
  the number \<open>x\<close>.
\<close>

datatype 'a fl = Fin 'a | NonFinite

instantiation fl :: (monoid_add) monoid_add
begin

definition zero_fl :: "'a fl" where
  "zero_fl = Fin 0"

definition plus_fl :: "'a fl \<Rightarrow> 'a fl \<Rightarrow> 'a fl" where
  "plus_fl a b =
     (case a of
        Fin x \<Rightarrow> (case b of Fin y \<Rightarrow> Fin (x + y) | NonFinite \<Rightarrow> NonFinite)
      | NonFinite \<Rightarrow> NonFinite)"

instance
  by standard (auto simp: zero_fl_def plus_fl_def add.assoc split: fl.splits)

end

instantiation fl :: (times) times
begin

definition times_fl :: "'a fl \<Rightarrow> 'a fl \<Rightarrow> 'a fl" where
  "times_fl a b =
     (case a of
        Fin x \<Rightarrow> (case b of Fin y \<Rightarrow> Fin (x * y) | NonFinite \<Rightarrow> NonFinite)
      | NonFinite \<Rightarrow> NonFinite)"

instance ..

end

instantiation fl :: (minus) minus
begin

definition minus_fl :: "'a fl \<Rightarrow> 'a fl \<Rightarrow> 'a fl" where
  "minus_fl a b =
     (case a of
        Fin x \<Rightarrow> (case b of Fin y \<Rightarrow> Fin (x - y) | NonFinite \<Rightarrow> NonFinite)
      | NonFinite \<Rightarrow> NonFinite)"

instance ..

end

text \<open>\<^verbatim>\<open>a / b\<close> on floating-point numbers\<close>

definition fl_div :: "('a::field) fl \<Rightarrow> 'a fl \<Rightarrow> 'a fl" where
  "fl_div a b =
     (case a of
        Fin x \<Rightarrow>
          (case b of Fin y \<Rightarrow> if y = 0 then NonFinite else Fin (x / y)
           | NonFinite \<Rightarrow> NonFinite)
      | NonFinite \<Rightarrow> NonFinite)"

text \<open>\<^verbatim>\<open>X.T\<close>\<close>

definition matrix_T :: "'a matrix \<Rightarrow> 'a matrix" where
  "matrix_T A = \<lparr>ncols = nrows A, rows = map (column A) [0..<ncols A]\<rparr>"

text \<open>
  \<^verbatim>\<open>np.linalg.norm(Y, axis=1)\<close>: the Euclidean norm of every row, a real number that the
  later arithmetic takes to the type of the entries.
\<close>

definition row_norm :: "('a::real_normed_field) fl list \<Rightarrow> 'a fl" where
  "row_norm r =
     map_fl (\<lambda>s. of_real (sqrt s)) (sum_list (map (map_fl (\<lambda>x. (norm x)\<^sup>2)) r))"

definition linalg_norm_axis1 :: "('a::real_normed_field) fl matrix \<Rightarrow> 'a fl list" where
  "linalg_norm_axis1 Y = map row_norm (rows Y)"

text \<open>\<^verbatim>\<open>x.dot(B)\<close> for a one-dimensional \<open>x\<close> and a two-dimensional \<open>B\<close>\<close>

definition dot_vm :: "('a::{monoid_add,times}) list \<Rightarrow> 'a matrix \<Rightarrow> error + 'a list" where
  "dot_vm x B =
     (if length x = nrows B then Inr (map (\<lambda>j. vdot x (column B j)) [0..<ncols B])
      else Inl ShapeMismatch)"

text \<open>\<^verbatim>\<open>np.diag(v)\<close> for a one-dimensional \<open>v\<close>\<close>

definition diag :: "('a::zero) list \<Rightarrow> 'a matrix" where
  "diag v =
     \<lparr>ncols = length v,
      rows = map (\<lambda>i. map (\<lambda>j. if i = j then v ! i else 0) [0..<length v]) [0..<length v]\<rparr>"

text \<open>\<^verbatim>\<open>A.sum(0)\<close>: the sums of the columns\<close>

definition sum_axis0 :: "('a::monoid_add) matrix \<Rightarrow> 'a list" where
  "sum_axis0 A = map (\<lambda>j. sum_list (column A j)) [0..<ncols A]"

text \<open>\<^verbatim>\<open>np.vstack((Y, r))\<close> for a two-dimensional \<open>Y\<close> and a one-dimensional \<open>r\<close>\<close>

definition vstack_row :: "'a matrix \<Rightarrow> 'a list \<Rightarrow> error + 'a matrix" where
  "vstack_row Y r =
     (if length r = ncols Y then Inr (Y\<lparr>rows := rows Y @ [r]\<rparr>) else Inl ShapeMismatch)"

definition gram_schmidt ::
  "('a::real_normed_field) fl matrix \<Rightarrow> bool \<Rightarrow> bool \<Rightarrow> error + 'a fl matrix" where
  "gram_schmidt X0 row_vecs norm_flag =
     (let X = (if \<not> row_vecs then matrix_T X0 else X0) in
      case for_loop [1..<nrows X]
             (\<lambda>i Y.
                case getrow X i of
                  Inl e \<Rightarrow> Inl e
                | Inr x \<Rightarrow>
                (case dot_vm x (matrix_T Y) of
                  Inl e \<Rightarrow> Inl e
                | Inr d \<Rightarrow>
                (case elementwise1 fl_div d (map (\<lambda>n. n * n) (linalg_norm_axis1 Y)) of
                  Inl e \<Rightarrow> Inl e
                | Inr q \<Rightarrow>
                (case matmul (diag q) Y of
                  Inl e \<Rightarrow> Inl e
                | Inr proj \<Rightarrow>
                (case elementwise1 (-) x (sum_axis0 proj) of
                  Inl e \<Rightarrow> Inl e
                | Inr r \<Rightarrow> vstack_row Y r)))))
             (X\<lparr>rows := take 1 (rows X)\<rparr>) of
        Inl e \<Rightarrow> Inl e
      | Inr Y \<Rightarrow>
          (case (if norm_flag
                 then matmul (diag (map (fl_div (Fin 1)) (linalg_norm_axis1 Y))) Y
                 else Inr Y) of
             Inl e \<Rightarrow> Inl e
           | Inr Y' \<Rightarrow> Inr (if row_vecs then Y' else matrix_T Y')))"

section \<open>Properties\<close>

text \<open>
  C3: the forward computation of \<^verbatim>\<open>expm_fastgrad(M, L)\<close> returns what \<^verbatim>\<open>expm(M)\<close>
  returns, whatever the control matrix list \<open>L\<close> is; in particular its result does not
  depend on \<open>L\<close>.
\<close>

theorem expm_fastgrad_forward_eq_expm:
  "expm_fastgrad la_expm M L = expm la_expm M
   \<and> expm_fastgrad la_expm M L = expm_fastgrad la_expm M L'"
  by (simp add: expm_fastgrad_def expm_def)

text \<open>
  C4: the function that \<^verbatim>\<open>_expm_fastgrad_vjp_dummy\<close> produces returns exactly zero for
  every output \<open>E\<close>, matrix \<open>M\<close>, control matrix list \<open>L\<close> and cotangent \<open>g\<close>.
\<close>

theorem expm_fastgrad_vjp_dummy_zero:
  "expm_fastgrad_vjp_dummy E M L g = 0"
  by (simp add: expm_fastgrad_vjp_dummy_def)

end
